theory Spec2Isabelle
  imports Main "HOL-Library.Word"
begin

section \<open>Data model (src/src/App.tsx, "TYPES AND INTERFACES")\<close>

text \<open>
  A JavaScript string is a sequence of UTF-16 code units; \<open>.length\<close> counts them.
  A \<open>Date\<close> is its time value (milliseconds since the epoch); a \<open>number\<close> that the
  program only ever fills with whole numbers is an \<open>int\<close>.
\<close>

type_synonym jsstring = "16 word list"
type_synonym Date = int

definition str :: "string \<Rightarrow> jsstring" where
  "str cs = map (\<lambda>c. of_nat (of_char c)) cs"

record TimeSlot =
  start :: int
  end_ts :: int

text \<open>
  \<open>interface Commitment\<close>. The field \<open>lastUpdated_c\<close> is not in the interface: it is the
  extra property that \<open>handleUpdateCommitment\<close> writes into the object
  (\<open>{ ...c, text, lastUpdated: new Date() }\<close>); \<open>None\<close> is the property being absent.
\<close>

record Commitment =
  id_c :: jsstring
  text_c :: jsstring
  completed_c :: bool
  timeSlot :: "TimeSlot option"
  createdAt :: Date
  locked :: bool
  lastUpdated_c :: "Date option"

record DayData =
  date :: jsstring
  commitments :: "Commitment list"
  focusScore :: int
  reflection :: jsstring
  morningQuestion :: jsstring
  completed :: bool
  focusTime :: int
  lastUpdated :: Date

datatype Theme = dark | light

record UserSettings =
  theme :: Theme
  isPro :: bool
  dailyResetTime :: int

record FocusMode =
  isActive :: bool
  currentCommitmentId :: "jsstring option"
  timer :: int

record UiState =
  showMorningModal :: bool
  showReflectionModal :: bool
  showUpgradeModal :: bool
  isDragging :: bool

text \<open>The four Recoil atoms \<open>currentDayState\<close>, \<open>userSettingsState\<close>, \<open>focusModeState\<close>
  and \<open>uiState\<close> together are the state of the application.\<close>

record AppState =
  dayData :: DayData
  settings :: UserSettings
  focusMode :: FocusMode
  ui :: UiState

section \<open>String.prototype.trim and Number.prototype.toString\<close>

text \<open>ECMAScript WhiteSpace and LineTerminator code points, all of them in the basic
  plane: TAB, LF, VT, FF, CR, SP, NBSP, U+1680, U+2000..U+200A, LS, PS, U+202F, U+205F,
  U+3000 and the byte order mark.\<close>

definition isWhiteSpace :: "16 word \<Rightarrow> bool" where
  "isWhiteSpace c =
     (c = 0x9 \<or> c = 0xA \<or> c = 0xB \<or> c = 0xC \<or> c = 0xD \<or> c = 0x20 \<or> c = 0xA0
      \<or> c = 0x1680 \<or> (0x2000 \<le> c \<and> c \<le> 0x200A) \<or> c = 0x2028 \<or> c = 0x2029
      \<or> c = 0x202F \<or> c = 0x205F \<or> c = 0x3000 \<or> c = 0xFEFF)"

definition trim :: "jsstring \<Rightarrow> jsstring" where
  "trim s = rev (dropWhile isWhiteSpace (rev (dropWhile isWhiteSpace s)))"

fun digits :: "nat \<Rightarrow> jsstring" where
  "digits n = (if n < 10 then [of_nat (48 + n)] else digits (n div 10) @ [of_nat (48 + n mod 10)])"

declare digits.simps [simp del]

definition toString :: "int \<Rightarrow> jsstring" where
  "toString n = (if n < 0 then 0x2D # digits (nat (- n)) else digits (nat n))"

section \<open>Selectors\<close>

record Counts =
  total :: nat
  completed_n :: nat
  locked_n :: nat

definition commitmentsCountSelector :: "DayData \<Rightarrow> Counts" where
  "commitmentsCountSelector day =
     \<lparr> total = length (commitments day),
       completed_n = length (filter completed_c (commitments day)),
       locked_n = length (filter locked (commitments day)) \<rparr>"

definition focusScoreSelector :: "DayData \<Rightarrow> int" where
  "focusScoreSelector day =
     (let cnt = commitmentsCountSelector day;
          score = 0;
          score = (if completed_n cnt = total cnt \<and> total cnt > 0 then score + 40 else score);
          score = (if focusTime day > 0 then score + 20 else score);
          score = (if length (trim (reflection day)) > 0 then score + 20 else score);
          hasLockedCommitments = list_ex locked (commitments day);
          hasEditsAfterLock = False;
          score = (if hasLockedCommitments \<and> \<not> hasEditsAfterLock then score + 20 else score)
      in min score 100)"

section \<open>The handlers of \<open>DailyFocusOS\<close>\<close>

text \<open>
  Each handler is a function from the state before the event to the state after it.
  The clock is read by the handlers (\<open>new Date()\<close>, \<open>Date.now()\<close>); the reading is the
  parameter \<open>now\<close>, one reading for the whole synchronous handler call.

  A handler is made by \<open>useCallback\<close> in a render of the component and closes over
  values of that render, while an updater \<open>prev => ...\<close> passed to a setter reads the atom
  as it is at the write. \<open>handleAddCommitment\<close> tests \<open>commitmentsCount.total\<close> and
  \<open>settings.isPro\<close> of its render and writes on \<open>prev\<close>: the render's values are the
  parameter of type \<open>Render\<close>, and \<open>render s\<close> are the values of the render of the state
  \<open>s\<close>. \<open>handleStopFocusMode\<close> is modelled as the handler of the render of the state it
  runs on (its dependency list holds \<open>focusMode.timer\<close>, so every tick makes a new one).
\<close>

record Render =
  commitmentsCount :: Counts
  settings_r :: UserSettings

definition render :: "AppState \<Rightarrow> Render" where
  "render s = \<lparr> commitmentsCount = commitmentsCountSelector (dayData s),
               settings_r = settings s \<rparr>"

definition newCommitment :: "Date \<Rightarrow> Commitment" where
  "newCommitment now =
     \<lparr> id_c = toString now, text_c = [], completed_c = False, timeSlot = None,
       createdAt = now, locked = False, lastUpdated_c = None \<rparr>"

definition handleAddCommitment :: "Render \<Rightarrow> Date \<Rightarrow> AppState \<Rightarrow> AppState" where
  "handleAddCommitment r now prev =
     (if total (commitmentsCount r) \<ge> 3 \<and> \<not> isPro (settings_r r)
      then prev\<lparr>ui := (ui prev)\<lparr>showUpgradeModal := True\<rparr>\<rparr>
      else if total (commitmentsCount r) \<ge> 4
      then prev
      else prev\<lparr>dayData := (dayData prev)
              \<lparr>commitments := commitments (dayData prev) @ [newCommitment now],
               lastUpdated := now\<rparr>\<rparr>)"

definition handleUpdateCommitment :: "Date \<Rightarrow> jsstring \<Rightarrow> jsstring \<Rightarrow> AppState \<Rightarrow> AppState" where
  "handleUpdateCommitment now i txt s =
     s\<lparr>dayData := (dayData s)
         \<lparr>commitments :=
            map (\<lambda>c. if id_c c = i then c\<lparr>text_c := txt, lastUpdated_c := Some now\<rparr> else c)
              (commitments (dayData s)),
          lastUpdated := now\<rparr>\<rparr>"

definition handleDeleteCommitment :: "Date \<Rightarrow> jsstring \<Rightarrow> AppState \<Rightarrow> AppState" where
  "handleDeleteCommitment now i s =
     s\<lparr>dayData := (dayData s)
         \<lparr>commitments := filter (\<lambda>c. id_c c \<noteq> i) (commitments (dayData s)),
          lastUpdated := now\<rparr>\<rparr>"

definition handleToggleComplete :: "Date \<Rightarrow> jsstring \<Rightarrow> AppState \<Rightarrow> AppState" where
  "handleToggleComplete now i s =
     s\<lparr>dayData := (dayData s)
         \<lparr>commitments :=
            map (\<lambda>c. if id_c c = i then c\<lparr>completed_c := \<not> completed_c c\<rparr> else c)
              (commitments (dayData s)),
          lastUpdated := now\<rparr>\<rparr>"

definition handleStartFocusMode :: "Date \<Rightarrow> jsstring \<Rightarrow> AppState \<Rightarrow> AppState" where
  "handleStartFocusMode now commitmentId s =
     s\<lparr>dayData := (dayData s)
         \<lparr>commitments := map (\<lambda>c. c\<lparr>locked := True\<rparr>) (commitments (dayData s)),
          lastUpdated := now\<rparr>,
       focusMode := \<lparr> isActive = True, currentCommitmentId = Some commitmentId,
                      timer = 25 * 60 \<rparr>\<rparr>"

definition handleStopFocusMode :: "Date \<Rightarrow> AppState \<Rightarrow> AppState" where
  "handleStopFocusMode now s =
     (let focusTimeMinutes = 25 - timer (focusMode s) div 60
      in s\<lparr>dayData := (dayData s)
              \<lparr>focusTime := focusTime (dayData s) + focusTimeMinutes,
               lastUpdated := now\<rparr>,
            focusMode := \<lparr> isActive = False, currentCommitmentId = None, timer = 0 \<rparr>\<rparr>)"

definition handleSubmitMorningQuestion :: "Date \<Rightarrow> jsstring \<Rightarrow> AppState \<Rightarrow> AppState" where
  "handleSubmitMorningQuestion now answer s =
     s\<lparr>dayData := (dayData s)\<lparr>morningQuestion := answer, lastUpdated := now\<rparr>,
       ui := (ui s)\<lparr>showMorningModal := False\<rparr>\<rparr>"

definition handleSubmitReflection :: "Date \<Rightarrow> jsstring \<Rightarrow> AppState \<Rightarrow> AppState" where
  "handleSubmitReflection now reflection_in s =
     s\<lparr>dayData := (dayData s)\<lparr>reflection := reflection_in, completed := True, lastUpdated := now\<rparr>,
       ui := (ui s)\<lparr>showReflectionModal := False\<rparr>\<rparr>"

text \<open>\<open>today\<close> is \<open>new Date().toISOString().split('T')[0]\<close>, the calendar date of the
  clock reading.\<close>

definition handleDailyReset :: "jsstring \<Rightarrow> Date \<Rightarrow> AppState \<Rightarrow> AppState" where
  "handleDailyReset today now s =
     s\<lparr>dayData := \<lparr> date = today, commitments = [], focusScore = 0, reflection = [],
                    morningQuestion = [], completed = False, focusTime = 0,
                    lastUpdated = now \<rparr>,
       ui := \<lparr> showMorningModal = True, showReflectionModal = False,
               showUpgradeModal = False, isDragging = False \<rparr>,
       focusMode := \<lparr> isActive = False, currentCommitmentId = None, timer = 0 \<rparr>\<rparr>"

definition toggleTheme :: "AppState \<Rightarrow> AppState" where
  "toggleTheme s =
     s\<lparr>settings := (settings s)\<lparr>theme := (if theme (settings s) = dark then light else dark)\<rparr>\<rparr>"

text \<open>The upgrade and reflection buttons of the page only write \<open>uiState\<close>.\<close>

definition closeUpgradeModal :: "AppState \<Rightarrow> AppState" where
  "closeUpgradeModal s = s\<lparr>ui := (ui s)\<lparr>showUpgradeModal := False\<rparr>\<rparr>"

definition openUpgradeModal :: "AppState \<Rightarrow> AppState" where
  "openUpgradeModal s = s\<lparr>ui := (ui s)\<lparr>showUpgradeModal := True\<rparr>\<rparr>"

definition openReflectionModal :: "AppState \<Rightarrow> AppState" where
  "openReflectionModal s = s\<lparr>ui := (ui s)\<lparr>showReflectionModal := True\<rparr>\<rparr>"

subsection \<open>Effects\<close>

text \<open>The first \<open>useEffect\<close>: whenever the list of commitments is empty, it is filled with
  the three sample commitments. \<open>prev\<close> is spread, so nothing else of the day changes.
  Both effects run right after the render whose values their conditions read, and are
  modelled on the state of that render.\<close>

definition sampleCommitments :: "Date \<Rightarrow> Commitment list" where
  "sampleCommitments now =
     [ \<lparr> id_c = str ''1'', text_c = str ''Complete project planning'', completed_c = False,
         timeSlot = Some \<lparr> start = 9, end_ts = 11 \<rparr>, createdAt = now, locked = False,
         lastUpdated_c = None \<rparr>,
       \<lparr> id_c = str ''2'', text_c = str ''Write documentation'', completed_c = False,
         timeSlot = Some \<lparr> start = 13, end_ts = 15 \<rparr>, createdAt = now, locked = False,
         lastUpdated_c = None \<rparr>,
       \<lparr> id_c = str ''3'', text_c = str ''Code review session'', completed_c = False,
         timeSlot = Some \<lparr> start = 16, end_ts = 17 \<rparr>, createdAt = now, locked = False,
         lastUpdated_c = None \<rparr> ]"

definition initializeDay :: "Date \<Rightarrow> AppState \<Rightarrow> AppState" where
  "initializeDay now s =
     (if length (commitments (dayData s)) = 0
      then s\<lparr>dayData := (dayData s)\<lparr>commitments := sampleCommitments now\<rparr>\<rparr>
      else s)"

text \<open>The second \<open>useEffect\<close>: the interval callback, run once a second while the
  session is active and the timer is positive.\<close>

definition tick :: "AppState \<Rightarrow> AppState" where
  "tick s =
     (if isActive (focusMode s) \<and> timer (focusMode s) > 0
      then s\<lparr>focusMode := (focusMode s)\<lparr>timer := timer (focusMode s) - 1\<rparr>\<rparr>
      else s)"

subsection \<open>The presentation layer's gates\<close>

text \<open>
  \<open>ReflectionModal.handleSubmit\<close> and \<open>MorningModal.handleSubmit\<close>: the text typed into
  the modal reaches the handler only when it is non-empty after \<open>trim()\<close> (a string is
  truthy when it is not empty), and it reaches it trimmed.
\<close>

definition ReflectionModal_handleSubmit :: "Date \<Rightarrow> jsstring \<Rightarrow> AppState \<Rightarrow> AppState" where
  "ReflectionModal_handleSubmit now reflection_in s =
     (if trim reflection_in \<noteq> [] then handleSubmitReflection now (trim reflection_in) s else s)"

definition MorningModal_handleSubmit :: "Date \<Rightarrow> jsstring \<Rightarrow> AppState \<Rightarrow> AppState" where
  "MorningModal_handleSubmit now answer s =
     (if trim answer \<noteq> [] then handleSubmitMorningQuestion now (trim answer) s else s)"



definition CommitmentCard_onDelete :: "Date \<Rightarrow> Commitment \<Rightarrow> AppState \<Rightarrow> AppState" where
  "CommitmentCard_onDelete now c s =
     (if \<not> locked c then handleDeleteCommitment now (id_c c) s else s)"

record CardState =
  isEditing :: bool
  text_k :: jsstring

definition CommitmentCard_init :: "Commitment \<Rightarrow> CardState" where
  "CommitmentCard_init c = \<lparr> isEditing = (text_c c = []), text_k = text_c c \<rparr>"

definition CommitmentCard_onClickText :: "Commitment \<Rightarrow> CardState \<Rightarrow> CardState" where
  "CommitmentCard_onClickText c k = (if \<not> locked c then k\<lparr>isEditing := True\<rparr> else k)"

definition CommitmentCard_handleSave ::
  "Date \<Rightarrow> Commitment \<Rightarrow> CardState \<times> AppState \<Rightarrow> CardState \<times> AppState" where
  "CommitmentCard_handleSave now c ks =
     (case ks of (k, s) \<Rightarrow>
        if trim (text_k k) \<noteq> []
        then (k\<lparr>isEditing := False\<rparr>, handleUpdateCommitment now (id_c c) (text_k k) s)
        else (k, s))"

subsection \<open>Events\<close>

text \<open>Every write to the atoms in \<open>DailyFocusOS\<close>, as one event each. The event of
  adding a commitment carries the render whose handler is called.\<close>

datatype Action =
    AddCommitment Render Date
  | UpdateCommitment Date jsstring jsstring
  | DeleteCommitment Date jsstring
  | ToggleComplete Date jsstring
  | StartFocusMode Date jsstring
  | StopFocusMode Date
  | SubmitMorningQuestion Date jsstring
  | SubmitReflection Date jsstring
  | DailyReset jsstring Date
  | ToggleTheme
  | CloseUpgradeModal
  | OpenUpgradeModal
  | OpenReflectionModal
  | InitializeDay Date
  | Tick

fun dispatch :: "Action \<Rightarrow> AppState \<Rightarrow> AppState" where
  "dispatch (AddCommitment r now) s = handleAddCommitment r now s"
| "dispatch (UpdateCommitment now i txt) s = handleUpdateCommitment now i txt s"
| "dispatch (DeleteCommitment now i) s = handleDeleteCommitment now i s"
| "dispatch (ToggleComplete now i) s = handleToggleComplete now i s"
| "dispatch (StartFocusMode now i) s = handleStartFocusMode now i s"
| "dispatch (StopFocusMode now) s = handleStopFocusMode now s"
| "dispatch (SubmitMorningQuestion now a) s = handleSubmitMorningQuestion now a s"
| "dispatch (SubmitReflection now r) s = handleSubmitReflection now r s"
| "dispatch (DailyReset today now) s = handleDailyReset today now s"
| "dispatch ToggleTheme s = toggleTheme s"
| "dispatch CloseUpgradeModal s = closeUpgradeModal s"
| "dispatch OpenUpgradeModal s = openUpgradeModal s"
| "dispatch OpenReflectionModal s = openReflectionModal s"
| "dispatch (InitializeDay now) s = initializeDay now s"
| "dispatch Tick s = tick s"

definition isSubmitReflection :: "Action \<Rightarrow> bool" where
  "isSubmitReflection a = (case a of SubmitReflection now r \<Rightarrow> True | _ \<Rightarrow> False)"

subsection \<open>The atoms' defaults and a sample day\<close>

definition defaultState :: "jsstring \<Rightarrow> Date \<Rightarrow> AppState" where
  "defaultState today now =
     \<lparr> dayData = \<lparr> date = today, commitments = [], focusScore = 0, reflection = [],
                   morningQuestion = [], completed = False, focusTime = 0,
                   lastUpdated = now \<rparr>,
       settings = \<lparr> theme = dark, isPro = False, dailyResetTime = 6 \<rparr>,
       focusMode = \<lparr> isActive = False, currentCommitmentId = None, timer = 0 \<rparr>,
       ui = \<lparr> showMorningModal = True, showReflectionModal = False,
              showUpgradeModal = False, isDragging = False \<rparr> \<rparr>"

definition sampleState :: AppState where
  "sampleState = initializeDay 1000 (defaultState (str ''2026-01-01'') 1000)"

text \<open>Sample states reached from \<open>sampleState\<close> by the handlers: the third commitment
  deleted; a session started on commitment 1; commitment 1 ticked as completed.\<close>

definition twoState :: AppState where
  "twoState = handleDeleteCommitment 1200 (str ''3'') sampleState"

definition lockedState :: AppState where
  "lockedState = handleStartFocusMode 2000 (str ''1'') sampleState"


section \<open>The mobile variant (src/unnamed/part_000)\<close>

text \<open>
  The variant names a commitment a task (\<open>interface Task\<close> has the fields of
  \<open>Commitment\<close>, \<open>DayData.tasks\<close> is \<open>DayData.commitments\<close>, \<open>tasksCountSelector\<close> is
  \<open>commitmentsCountSelector\<close>, \<open>currentTaskId\<close> is \<open>currentCommitmentId\<close>), and its
  settings and UI atoms have more fields.
\<close>

datatype MobileTab = tab_today | tab_focus | tab_progress | tab_more









definition runningState :: AppState where
  "runningState = lockedState\<lparr>focusMode := (focusMode lockedState)\<lparr>timer := 300\<rparr>\<rparr>"

section \<open>String literals and the sample states\<close>

lemma of_char_lt: "(of_char c :: nat) < 256"
proof -
  have "(of_char c :: nat) mod 256 < 256" by simp
  then show ?thesis by (simp only: of_char_mod_256)
qed

lemma unat_code_unit: "unat (of_nat (of_char c) :: 16 word) = of_char c"
proof -
  have "(256::nat) < 65536" by simp
  with of_char_lt [of c] have "(of_char c :: nat) < 65536" by (rule less_trans)
  then have "(of_char c :: nat) mod 65536 = of_char c" by (rule mod_less)
  then show ?thesis by (simp add: unat_of_nat)
qed

lemma inj_code_unit: "inj (\<lambda>c. of_nat (of_char c) :: 16 word)"
proof (rule injI)
  fix c d :: char
  assume "(of_nat (of_char c) :: 16 word) = of_nat (of_char d)"
  then have "unat (of_nat (of_char c) :: 16 word) = unat (of_nat (of_char d) :: 16 word)"
    by simp
  then have "(of_char c :: nat) = of_char d" by (simp only: unat_code_unit)
  then show "c = d" by simp
qed

lemma str_eq_iff [simp]: "str a = str b \<longleftrightarrow> a = b"
  unfolding str_def by (rule inj_map_eq_map [OF inj_code_unit])

lemma str_Nil [simp]: "str [] = []" by (simp add: str_def)

lemma sample_commitments:
  "commitments (dayData sampleState) = sampleCommitments 1000"
  by (simp add: sampleState_def initializeDay_def defaultState_def)

section \<open>The score selector\<close>

lemma length_filter_eq_iff: "length (filter P xs) = length xs \<longleftrightarrow> list_all P xs"
proof (induction xs)
  case Nil
  show ?case by simp
next
  case (Cons x xs)
  have "length (filter P xs) \<noteq> Suc (length xs)"
    using length_filter_le [of P xs] by linarith
  with Cons show ?case by auto
qed

lemma score_sum:
  "focusScoreSelector day =
     min ((if commitments day \<noteq> [] \<and> list_all completed_c (commitments day) then 40 else 0)
        + (if focusTime day > 0 then 20 else 0)
        + (if length (trim (reflection day)) > 0 then 20 else 0)
        + (if list_ex locked (commitments day) then 20 else 0)) 100"
  by (simp add: focusScoreSelector_def commitmentsCountSelector_def Let_def length_filter_eq_iff)

lemma trim_done: "trim (str ''done'') = str ''done''"
  by (simp add: str_def trim_def isWhiteSpace_def)

text \<open>
  C2. The score is \<open>min(sum, 100)\<close> and lies in [0, 100], where the sum has +40 when the
  list of commitments is non-empty and every commitment is completed, +20 when
  \<open>focusTime > 0\<close>, +20 when the reflection has non-zero length after \<open>trim()\<close>, and +20
  when at least one commitment is locked (\<open>hasEditsAfterLock\<close> is the constant \<open>false\<close>).
  An empty list never earns the +40 (the score is then at most 60), and with no
  commitments, \<open>focusTime = 15\<close> and reflection \<open>"done"\<close> the score is 40.
\<close>

theorem focusScoreSelector_sum:
  "focusScoreSelector day =
     min ((if commitments day \<noteq> [] \<and> list_all completed_c (commitments day) then 40 else 0)
        + (if focusTime day > 0 then 20 else 0)
        + (if length (trim (reflection day)) > 0 then 20 else 0)
        + (if list_ex locked (commitments day) then 20 else 0)) 100
   \<and> 0 \<le> focusScoreSelector day \<and> focusScoreSelector day \<le> 100
   \<and> (commitments day = [] \<longrightarrow> focusScoreSelector day \<le> 60)
   \<and> (commitments day = [] \<and> focusTime day = 15 \<and> reflection day = str ''done''
        \<longrightarrow> focusScoreSelector day = 40)"
proof -
  have "trim (str ''done'') \<noteq> []" by (simp add: trim_done) (simp add: str_def)
  then show ?thesis unfolding score_sum by auto
qed

theorem focusScoreSelector_sum_witness:
  "commitments ((dayData (defaultState [] 0))\<lparr>focusTime := 15, reflection := str ''done''\<rparr>) = []
   \<and> focusScoreSelector ((dayData (defaultState [] 0))\<lparr>focusTime := 15, reflection := str ''done''\<rparr>) = 40"
  using focusScoreSelector_sum [of "(dayData (defaultState [] 0))\<lparr>focusTime := 15, reflection := str ''done''\<rparr>"]
  by (simp add: defaultState_def)

section \<open>Editing and deleting a locked commitment\<close>

lemma update_ids:
  "map id_c (commitments (dayData (handleUpdateCommitment now i txt s))) = map id_c (commitments (dayData s))"
  by (simp add: handleUpdateCommitment_def)

lemma update_locked:
  "map locked (commitments (dayData (handleUpdateCommitment now i txt s))) = map locked (commitments (dayData s))"
  by (simp add: handleUpdateCommitment_def)

lemma update_text:
  assumes "c \<in> set (commitments (dayData (handleUpdateCommitment now i txt s)))" and "id_c c = i"
  shows "text_c c = txt"
proof -
  from assms(1) obtain d where d: "d \<in> set (commitments (dayData s))"
    and c: "c = (if id_c d = i then d\<lparr>text_c := txt, lastUpdated_c := Some now\<rparr> else d)"
    by (auto simp: handleUpdateCommitment_def)
  show ?thesis
  proof (cases "id_c d = i")
    case True
    with c show ?thesis by simp
  next
    case False
    with c assms(2) show ?thesis by simp
  qed
qed

lemma update_others:
  "filter (\<lambda>c. id_c c \<noteq> i) (commitments (dayData (handleUpdateCommitment now i txt s)))
       = filter (\<lambda>c. id_c c \<noteq> i) (commitments (dayData s))"
proof -
  have "filter (\<lambda>c. id_c c \<noteq> i) (map (\<lambda>c. if id_c c = i then c\<lparr>text_c := txt, lastUpdated_c := Some now\<rparr> else c) xs)
      = filter (\<lambda>c. id_c c \<noteq> i) xs" for xs
    by (induction xs) simp_all
  then show ?thesis by (simp add: handleUpdateCommitment_def)
qed

lemma delete_gone: "i \<notin> id_c ` set (commitments (dayData (handleDeleteCommitment now i s)))"
  by (auto simp: handleDeleteCommitment_def)

lemma delete_others:
  "commitments (dayData (handleDeleteCommitment now i s))
       = filter (\<lambda>c. id_c c \<noteq> i) (commitments (dayData s))"
  by (simp add: handleDeleteCommitment_def)

lemma card_gates:
  "locked c \<Longrightarrow> CommitmentCard_onDelete now c s = s \<and> CommitmentCard_onClickText c k = k"
  by (simp add: CommitmentCard_onDelete_def CommitmentCard_onClickText_def)

text \<open>
  The two gates of the card do not close every way to the update handler: a card whose
  commitment has no text mounts with the editor open, locked or not, and \<open>handleSave\<close>
  does not read \<open>locked\<close>.
\<close>

lemma blank_card_opens_editor: "text_c c = [] \<Longrightarrow> isEditing (CommitmentCard_init c)"
  by (simp add: CommitmentCard_init_def)

lemma handleSave_ignores_lock:
  "trim t \<noteq> [] \<Longrightarrow>
     snd (CommitmentCard_handleSave now c (k\<lparr>text_k := t\<rparr>, s))
       = handleUpdateCommitment now (id_c c) t s"
  by (simp add: CommitmentCard_handleSave_def)

text \<open>
  C1, as stated, fails. In \<open>lockedState\<close> (a session was started, so every commitment is
  locked) commitment 1 is locked, and still \<open>handleUpdateCommitment\<close> replaces its text
  and \<open>handleDeleteCommitment\<close> removes it.
\<close>

theorem locked_edit_counterexample:
  "id_c (commitments (dayData lockedState) ! 0) = str ''1''
   \<and> locked (commitments (dayData lockedState) ! 0)
   \<and> text_c (commitments (dayData lockedState) ! 0) = str ''Complete project planning''
   \<and> text_c (commitments (dayData (handleUpdateCommitment 3000 (str ''1'') (str ''x'') lockedState)) ! 0) = str ''x''
   \<and> length (commitments (dayData lockedState)) = 3
   \<and> length (commitments (dayData (handleDeleteCommitment 3000 (str ''1'') lockedState))) = 2"
  by (simp add: lockedState_def handleStartFocusMode_def handleUpdateCommitment_def
      handleDeleteCommitment_def sample_commitments sampleCommitments_def)

text \<open>
  C1, amended. The two handlers do not read \<open>locked\<close>. \<open>handleUpdateCommitment\<close> keeps the
  ids and the locked flags of the list, gives every commitment with the id the new text,
  locked or not, and leaves the commitments with another id as they are.
  \<open>handleDeleteCommitment\<close> removes every commitment with the id, locked or not, and keeps
  the others in their order. In the card, for a locked commitment the delete button is
  not rendered and a click on the text does not open the editor.
\<close>

theorem update_delete_ignore_lock:
  "map id_c (commitments (dayData (handleUpdateCommitment now i txt s))) = map id_c (commitments (dayData s))
   \<and> map locked (commitments (dayData (handleUpdateCommitment now i txt s))) = map locked (commitments (dayData s))
   \<and> (\<forall>c \<in> set (commitments (dayData (handleUpdateCommitment now i txt s))). id_c c = i \<longrightarrow> text_c c = txt)
   \<and> filter (\<lambda>c. id_c c \<noteq> i) (commitments (dayData (handleUpdateCommitment now i txt s)))
       = filter (\<lambda>c. id_c c \<noteq> i) (commitments (dayData s))
   \<and> i \<notin> id_c ` set (commitments (dayData (handleDeleteCommitment now i s)))
   \<and> commitments (dayData (handleDeleteCommitment now i s))
       = filter (\<lambda>c. id_c c \<noteq> i) (commitments (dayData s))
   \<and> (locked c \<longrightarrow> CommitmentCard_onDelete now c s = s \<and> CommitmentCard_onClickText c k = k)"
proof (intro conjI ballI impI)
  show "map id_c (commitments (dayData (handleUpdateCommitment now i txt s))) = map id_c (commitments (dayData s))"
    by (rule update_ids)
  show "map locked (commitments (dayData (handleUpdateCommitment now i txt s))) = map locked (commitments (dayData s))"
    by (rule update_locked)
  show "text_c d = txt"
    if "d \<in> set (commitments (dayData (handleUpdateCommitment now i txt s)))" "id_c d = i" for d
    using that by (rule update_text)
  show "filter (\<lambda>c. id_c c \<noteq> i) (commitments (dayData (handleUpdateCommitment now i txt s)))
       = filter (\<lambda>c. id_c c \<noteq> i) (commitments (dayData s))"
    by (rule update_others)
  show "i \<notin> id_c ` set (commitments (dayData (handleDeleteCommitment now i s)))"
    by (rule delete_gone)
  show "commitments (dayData (handleDeleteCommitment now i s))
       = filter (\<lambda>c. id_c c \<noteq> i) (commitments (dayData s))"
    by (rule delete_others)
  show "CommitmentCard_onDelete now c s = s" if "locked c"
    using card_gates [OF that] by simp
  show "CommitmentCard_onClickText c k = k" if "locked c"
    using card_gates [OF that] by simp
qed


theorem update_delete_ignore_lock_witness:
  "commitments (dayData lockedState) ! 0 \<in> set (commitments (dayData lockedState))
   \<and> locked (commitments (dayData lockedState) ! 0)
   \<and> id_c (commitments (dayData (handleUpdateCommitment 3000 (str ''1'') (str ''x'') lockedState)) ! 0) = str ''1''
   \<and> text_c (commitments (dayData (handleUpdateCommitment 3000 (str ''1'') (str ''x'') lockedState)) ! 0) = str ''x''
   \<and> CommitmentCard_onDelete 3000 (commitments (dayData lockedState) ! 0) lockedState = lockedState"
  using update_delete_ignore_lock [of 3000 "str ''1''" "str ''x''" lockedState
      "commitments (dayData lockedState) ! 0" "CommitmentCard_init (commitments (dayData lockedState) ! 0)"]
  by (simp add: lockedState_def handleStartFocusMode_def handleUpdateCommitment_def
      sample_commitments sampleCommitments_def)

section \<open>Adding a commitment\<close>

lemma render_total: "total (commitmentsCount (render s)) = length (commitments (dayData s))"
  by (simp add: render_def commitmentsCountSelector_def)

lemma render_isPro: "isPro (settings_r (render s)) = isPro (settings s)"
  by (simp add: render_def)

lemma add_refused_free:
  "3 \<le> total (commitmentsCount r) \<Longrightarrow> \<not> isPro (settings_r r) \<Longrightarrow>
     handleAddCommitment r now s = s\<lparr>ui := (ui s)\<lparr>showUpgradeModal := True\<rparr>\<rparr>"
  by (simp add: handleAddCommitment_def)

lemma add_refused_full:
  "4 \<le> total (commitmentsCount r) \<Longrightarrow> isPro (settings_r r) \<Longrightarrow> handleAddCommitment r now s = s"
  by (simp add: handleAddCommitment_def)

lemma add_accepted:
  "total (commitmentsCount r) < 3 \<or> isPro (settings_r r) \<and> total (commitmentsCount r) < 4 \<Longrightarrow>
     handleAddCommitment r now s =
       s\<lparr>dayData := (dayData s)\<lparr>commitments := commitments (dayData s) @ [newCommitment now],
                                 lastUpdated := now\<rparr>\<rparr>"
  by (auto simp add: handleAddCommitment_def)

lemma add_cases:
  obtains (free) "3 \<le> total (commitmentsCount r)" "\<not> isPro (settings_r r)"
  | (full) "4 \<le> total (commitmentsCount r)" "isPro (settings_r r)"
  | (accepted) "total (commitmentsCount r) < 3 \<or> isPro (settings_r r) \<and> total (commitmentsCount r) < 4"
  by atomize_elim auto













lemma two_commitments: "length (commitments (dayData twoState)) = 2"
  by (simp add: twoState_def handleDeleteCommitment_def sample_commitments sampleCommitments_def)





section \<open>Starting and stopping a focus session\<close>

lemma start_commitments:
  "commitments (dayData (handleStartFocusMode now i s)) = map (\<lambda>c. c\<lparr>locked := True\<rparr>) (commitments (dayData s))"
  by (simp add: handleStartFocusMode_def)

lemma start_focusMode:
  "focusMode (handleStartFocusMode now i s) = \<lparr> isActive = True, currentCommitmentId = Some i, timer = 1500 \<rparr>"
  by (simp add: handleStartFocusMode_def)

lemma start_all_locked: "list_all locked (commitments (dayData (handleStartFocusMode now i s)))"
  by (simp add: start_commitments list_all_iff)

text \<open>
  C4. When the commitment \<open>taskId\<close> is in the list and is not completed,
  \<open>handleStartFocusMode\<close> sets \<open>locked\<close> on every commitment of the list (the list
  afterwards is the list before with \<open>locked := True\<close> in each entry), sets
  \<open>currentCommitmentId\<close> to \<open>taskId\<close>, the timer to 1500 and \<open>isActive\<close> to true.
\<close>

theorem start_session_effect:
  assumes "c \<in> set (commitments (dayData s))" and "id_c c = taskId" and "\<not> completed_c c"
  shows "list_all locked (commitments (dayData (handleStartFocusMode now taskId s)))
     \<and> commitments (dayData (handleStartFocusMode now taskId s))
           = map (\<lambda>c. c\<lparr>locked := True\<rparr>) (commitments (dayData s))
     \<and> length (commitments (dayData (handleStartFocusMode now taskId s))) = length (commitments (dayData s))
     \<and> currentCommitmentId (focusMode (handleStartFocusMode now taskId s)) = Some taskId
     \<and> timer (focusMode (handleStartFocusMode now taskId s)) = 1500
     \<and> isActive (focusMode (handleStartFocusMode now taskId s))"
  by (simp add: start_all_locked start_focusMode) (simp add: start_commitments)

theorem start_session_effect_witness:
  "commitments (dayData sampleState) ! 0 \<in> set (commitments (dayData sampleState))
   \<and> id_c (commitments (dayData sampleState) ! 0) = str ''1''
   \<and> \<not> completed_c (commitments (dayData sampleState) ! 0)
   \<and> \<not> list_all locked (commitments (dayData sampleState))
   \<and> list_all locked (commitments (dayData (handleStartFocusMode 2000 (str ''1'') sampleState)))
   \<and> length (commitments (dayData (handleStartFocusMode 2000 (str ''1'') sampleState))) = 3
   \<and> timer (focusMode (handleStartFocusMode 2000 (str ''1'') sampleState)) = 1500"
proof -
  have h: "commitments (dayData sampleState) ! 0 \<in> set (commitments (dayData sampleState))"
    "id_c (commitments (dayData sampleState) ! 0) = str ''1''"
    "\<not> completed_c (commitments (dayData sampleState) ! 0)"
    by (simp_all add: sample_commitments sampleCommitments_def)
  have n: "\<not> list_all locked (commitments (dayData sampleState))"
    "length (commitments (dayData sampleState)) = 3"
    by (simp_all add: sample_commitments sampleCommitments_def)
  from start_session_effect [OF h, of 2000] have
    "list_all locked (commitments (dayData (handleStartFocusMode 2000 (str ''1'') sampleState)))"
    "length (commitments (dayData (handleStartFocusMode 2000 (str ''1'') sampleState)))
       = length (commitments (dayData sampleState))"
    "timer (focusMode (handleStartFocusMode 2000 (str ''1'') sampleState)) = 1500"
    by blast+
  with h n show ?thesis by simp
qed




text \<open>
  C6. For a running session with timer \<open>t\<close> in [0, 1500], \<open>handleStopFocusMode\<close> adds
  \<open>25 - floor(t / 60)\<close> minutes, a value in [0, 25], to \<open>focusTime\<close> and resets the
  session to idle; at \<open>t = 300\<close> it adds 20.
\<close>

theorem stop_session_credit:
  assumes "isActive (focusMode s)" and "0 \<le> timer (focusMode s)" and "timer (focusMode s) \<le> 1500"
  shows "focusTime (dayData (handleStopFocusMode now s))
           = focusTime (dayData s) + (25 - timer (focusMode s) div 60)
     \<and> 0 \<le> 25 - timer (focusMode s) div 60 \<and> 25 - timer (focusMode s) div 60 \<le> 25
     \<and> focusMode (handleStopFocusMode now s)
           = \<lparr> isActive = False, currentCommitmentId = None, timer = 0 \<rparr>
     \<and> (timer (focusMode s) = 300 \<longrightarrow>
           focusTime (dayData (handleStopFocusMode now s)) = focusTime (dayData s) + 20)"
proof -
  from assms(2,3) have "0 \<le> timer (focusMode s) div 60" "timer (focusMode s) div 60 \<le> 25"
    by presburger+
  then show ?thesis by (simp add: handleStopFocusMode_def Let_def)
qed

theorem stop_session_credit_witness:
  "isActive (focusMode runningState) \<and> timer (focusMode runningState) = 300
   \<and> focusTime (dayData runningState) = 0
   \<and> focusTime (dayData (handleStopFocusMode 4000 runningState)) = 20
   \<and> \<not> isActive (focusMode (handleStopFocusMode 4000 runningState))"
proof -
  have h: "isActive (focusMode runningState)" "timer (focusMode runningState) = 300"
    "focusTime (dayData runningState) = 0"
    by (simp_all add: runningState_def lockedState_def handleStartFocusMode_def)
      (simp add: sampleState_def initializeDay_def defaultState_def)
  from stop_session_credit [of runningState 4000] h show ?thesis by simp
qed


section \<open>Submitting the reflection\<close>

lemma handleSubmitReflection_stores:
  "dayData (handleSubmitReflection now r s)
     = (dayData s)\<lparr>reflection := r, completed := True, lastUpdated := now\<rparr>"
  by (simp add: handleSubmitReflection_def)

lemma modal_refuses: "trim t = [] \<Longrightarrow> ReflectionModal_handleSubmit now t s = s"
  by (simp add: ReflectionModal_handleSubmit_def)

lemma modal_accepts:
  "trim t \<noteq> [] \<Longrightarrow>
     ReflectionModal_handleSubmit now t s = handleSubmitReflection now (trim t) s"
  by (simp add: ReflectionModal_handleSubmit_def)

lemma add_completed: "completed (dayData (handleAddCommitment r now s)) = completed (dayData s)"
  by (cases r rule: add_cases) (simp_all add: add_refused_free add_refused_full add_accepted)

lemma others_keep_completed:
  assumes "\<not> isSubmitReflection a" and "completed (dayData (dispatch a s))"
  shows "completed (dayData s)"
proof (cases a)
  case (AddCommitment rd tm)
  with assms(2) show ?thesis by (simp add: add_completed)
next
  case (UpdateCommitment tm i tx)
  with assms(2) show ?thesis by (simp add: handleUpdateCommitment_def)
next
  case (DeleteCommitment tm i)
  with assms(2) show ?thesis by (simp add: handleDeleteCommitment_def)
next
  case (ToggleComplete tm i)
  with assms(2) show ?thesis by (simp add: handleToggleComplete_def)
next
  case (StartFocusMode tm i)
  with assms(2) show ?thesis by (simp add: handleStartFocusMode_def)
next
  case (StopFocusMode tm)
  with assms(2) show ?thesis by (simp add: handleStopFocusMode_def Let_def)
next
  case (SubmitMorningQuestion tm ans)
  with assms(2) show ?thesis by (simp add: handleSubmitMorningQuestion_def)
next
  case (SubmitReflection tm r)
  with assms(1) show ?thesis by (simp add: isSubmitReflection_def)
next
  case (DailyReset day tm)
  with assms(2) show ?thesis by (simp add: handleDailyReset_def)
next
  case ToggleTheme
  with assms(2) show ?thesis by (simp add: toggleTheme_def)
next
  case CloseUpgradeModal
  with assms(2) show ?thesis by (simp add: closeUpgradeModal_def)
next
  case OpenUpgradeModal
  with assms(2) show ?thesis by (simp add: openUpgradeModal_def)
next
  case OpenReflectionModal
  with assms(2) show ?thesis by (simp add: openReflectionModal_def)
next
  case (InitializeDay tm)
  with assms(2) show ?thesis by (simp add: initializeDay_def split: if_splits)
next
  case Tick
  with assms(2) show ?thesis by (simp add: tick_def split: if_splits)
qed

lemma trim_blank: "trim (str ''   '') = []"
  by (simp add: str_def trim_def isWhiteSpace_def)

lemma trim_padded: "trim (str '' done '') = str ''done''"
  by (simp add: str_def trim_def isWhiteSpace_def)

lemma sample_not_completed: "\<not> completed (dayData sampleState)"
  by (simp add: sampleState_def initializeDay_def defaultState_def)

text \<open>
  C7, as stated, fails. \<open>handleSubmitReflection\<close> tests nothing: called on \<open>sampleState\<close>
  with three spaces, which \<open>trim()\<close> empties, it stores the three spaces as the
  reflection and sets \<open>completed\<close>, which was false.
\<close>

theorem submit_blank_counterexample:
  "trim (str ''   '') = []
   \<and> \<not> completed (dayData sampleState)
   \<and> reflection (dayData sampleState) = []
   \<and> reflection (dayData (handleSubmitReflection 5000 (str ''   '') sampleState)) = str ''   ''
   \<and> str ''   '' \<noteq> []
   \<and> completed (dayData (handleSubmitReflection 5000 (str ''   '') sampleState))"
  by (simp add: trim_blank sample_not_completed handleSubmitReflection_stores)
    (simp add: sampleState_def initializeDay_def defaultState_def str_def)

text \<open>
  C7, amended. \<open>handleSubmitReflection\<close> checks nothing: for every text, also one that is
  empty after \<open>trim()\<close>, it sets the reflection to the text as given, \<open>completed = true\<close>
  and the new \<open>lastUpdated\<close>. The test is in \<open>ReflectionModal.handleSubmit\<close>: when the
  text is empty after \<open>trim()\<close> it leaves the whole state unchanged (the modal stays
  open), otherwise it calls the handler with the trimmed text. No other event makes
  \<open>completed\<close> true: after any event that is not the submission of a reflection,
  \<open>completed\<close> holds only if it held before.
\<close>

theorem submit_reflection_unguarded:
  "dayData (handleSubmitReflection now r s)
      = (dayData s)\<lparr>reflection := r, completed := True, lastUpdated := now\<rparr>
   \<and> (trim t = [] \<longrightarrow> ReflectionModal_handleSubmit now t s = s)
   \<and> (trim t \<noteq> [] \<longrightarrow>
        ReflectionModal_handleSubmit now t s = handleSubmitReflection now (trim t) s)
   \<and> (\<not> isSubmitReflection a \<and> completed (dayData (dispatch a s)) \<longrightarrow> completed (dayData s))"
  using handleSubmitReflection_stores modal_refuses modal_accepts others_keep_completed
  by blast

theorem submit_reflection_unguarded_witness:
  "trim (str ''   '') = []
   \<and> ReflectionModal_handleSubmit 5000 (str ''   '') sampleState = sampleState
   \<and> trim (str '' done '') \<noteq> []
   \<and> reflection (dayData (ReflectionModal_handleSubmit 5000 (str '' done '') sampleState)) = str ''done''
   \<and> completed (dayData (ReflectionModal_handleSubmit 5000 (str '' done '') sampleState))
   \<and> \<not> isSubmitReflection (ToggleComplete 1500 (str ''1''))
   \<and> \<not> completed (dayData sampleState)
   \<and> \<not> completed (dayData (dispatch (ToggleComplete 1500 (str ''1'')) sampleState))"
proof -
  have a: "trim (str '' done '') \<noteq> []" by (simp add: trim_padded) (simp add: str_def)
  have b: "\<not> isSubmitReflection (ToggleComplete 1500 (str ''1''))"
    by (simp add: isSubmitReflection_def)
  note c = sample_not_completed
  from submit_reflection_unguarded [where t = "str ''   ''" and now = 5000 and s = sampleState]
  have 1: "ReflectionModal_handleSubmit 5000 (str ''   '') sampleState = sampleState"
    by (simp add: trim_blank)
  from submit_reflection_unguarded [where t = "str '' done ''" and now = 5000 and s = sampleState
      and r = "trim (str '' done '')"] a
  have 2: "dayData (ReflectionModal_handleSubmit 5000 (str '' done '') sampleState)
      = (dayData sampleState)\<lparr>reflection := trim (str '' done ''), completed := True, lastUpdated := 5000\<rparr>"
    by metis
  from submit_reflection_unguarded [where s = sampleState and a = "ToggleComplete 1500 (str ''1'')"] b c
  have 3: "\<not> completed (dayData (dispatch (ToggleComplete 1500 (str ''1'')) sampleState))"
    by blast
  from 1 2 3 a b c show ?thesis by (simp add: trim_blank trim_padded)
qed

section \<open>Resetting the day\<close>

text \<open>
  C8. Whatever the state before, \<open>handleDailyReset\<close> leaves a day with no commitments,
  \<open>focusTime\<close> 0, empty reflection and morning question, \<open>completed\<close> false, and an idle
  focus session. A second reset gives the state of the first with only \<open>date\<close> and
  \<open>lastUpdated\<close> rewritten, and the same state when the clock has not moved.
\<close>

theorem daily_reset:
  "commitments (dayData (handleDailyReset today now s)) = []
   \<and> focusTime (dayData (handleDailyReset today now s)) = 0
   \<and> reflection (dayData (handleDailyReset today now s)) = []
   \<and> morningQuestion (dayData (handleDailyReset today now s)) = []
   \<and> \<not> completed (dayData (handleDailyReset today now s))
   \<and> focusMode (handleDailyReset today now s)
        = \<lparr> isActive = False, currentCommitmentId = None, timer = 0 \<rparr>
   \<and> handleDailyReset today' now' (handleDailyReset today now s)
        = (handleDailyReset today now s)
            \<lparr>dayData := (dayData (handleDailyReset today now s))\<lparr>date := today', lastUpdated := now'\<rparr>\<rparr>
   \<and> handleDailyReset today now (handleDailyReset today now s) = handleDailyReset today now s"
  by (simp add: handleDailyReset_def)

section \<open>Toggling completion\<close>

lemma toggle_toggle:
  "(\<lambda>c. if id_c c = i then c\<lparr>completed_c := \<not> completed_c c\<rparr> else c)
     \<circ> (\<lambda>c. if id_c c = i then c\<lparr>completed_c := \<not> completed_c c\<rparr> else c) = id"
  by (rule ext) simp

text \<open>
  C9. Two calls of \<open>handleToggleComplete\<close> on the same id give back the state before,
  with only the day's \<open>lastUpdated\<close> rewritten. One call flips \<open>completed\<close> of exactly the
  commitments with that id and changes no other field of any commitment.
\<close>

theorem toggle_twice:
  "handleToggleComplete now' i (handleToggleComplete now i s)
      = s\<lparr>dayData := (dayData s)\<lparr>lastUpdated := now'\<rparr>\<rparr>
   \<and> map completed_c (commitments (dayData (handleToggleComplete now i s)))
      = map (\<lambda>c. if id_c c = i then \<not> completed_c c else completed_c c) (commitments (dayData s))
   \<and> map (\<lambda>c. c\<lparr>completed_c := False\<rparr>) (commitments (dayData (handleToggleComplete now i s)))
      = map (\<lambda>c. c\<lparr>completed_c := False\<rparr>) (commitments (dayData s))"
proof (intro conjI)
  show "handleToggleComplete now' i (handleToggleComplete now i s)
      = s\<lparr>dayData := (dayData s)\<lparr>lastUpdated := now'\<rparr>\<rparr>"
    by (simp add: handleToggleComplete_def toggle_toggle)
  show "map completed_c (commitments (dayData (handleToggleComplete now i s)))
      = map (\<lambda>c. if id_c c = i then \<not> completed_c c else completed_c c) (commitments (dayData s))"
    by (simp add: handleToggleComplete_def)
  show "map (\<lambda>c. c\<lparr>completed_c := False\<rparr>) (commitments (dayData (handleToggleComplete now i s)))
      = map (\<lambda>c. c\<lparr>completed_c := False\<rparr>) (commitments (dayData s))"
    by (simp add: handleToggleComplete_def)
qed


section \<open>A commitment added while a session runs\<close>

lemma newCommitment_unlocked: "\<not> locked (newCommitment now)"
  by (simp add: newCommitment_def)

lemma start_then_add:
  assumes "total (commitmentsCount r) < 3 \<or> isPro (settings_r r) \<and> total (commitmentsCount r) < 4"
  shows "handleAddCommitment r now' (handleStartFocusMode now i s) =
     (handleStartFocusMode now i s)
       \<lparr>dayData := (dayData (handleStartFocusMode now i s))
          \<lparr>commitments := map (\<lambda>c. c\<lparr>locked := True\<rparr>) (commitments (dayData s)) @ [newCommitment now'],
           lastUpdated := now'\<rparr>\<rparr>"
  by (simp add: add_accepted [OF assms] start_commitments)

lemma render_start_total:
  "total (commitmentsCount (render (handleStartFocusMode now i s)))
     = length (commitments (dayData s))"
  by (simp add: render_total start_commitments)

lemma render_start_isPro:
  "isPro (settings_r (render (handleStartFocusMode now i s))) = isPro (settings s)"
  by (simp add: render_isPro handleStartFocusMode_def)

text \<open>
  C10. An accepted call of \<open>handleAddCommitment\<close> (one whose render passes both guards;
  the render of a state with fewer than 3 commitments, or of a pro account with fewer
  than 4, is one) appends a commitment with \<open>locked = false\<close> and does not touch the focus
  session. So when a session is started and a commitment is then added, the session is
  active, the commitments that were in the list at the start are locked, and the new,
  last one is not: "every commitment is locked" does not hold in that running session.
\<close>

theorem added_task_unlocked:
  "(total (commitmentsCount r) < 3
      \<or> isPro (settings_r r) \<and> total (commitmentsCount r) < 4 \<longrightarrow>
      commitments (dayData (handleAddCommitment r now s)) = commitments (dayData s) @ [newCommitment now]
      \<and> \<not> locked (newCommitment now)
      \<and> focusMode (handleAddCommitment r now s) = focusMode s)
   \<and> (total (commitmentsCount r) < 3
      \<or> isPro (settings_r r) \<and> total (commitmentsCount r) < 4 \<longrightarrow>
      isActive (focusMode (handleAddCommitment r now' (handleStartFocusMode now i s)))
      \<and> butlast (commitments (dayData (handleAddCommitment r now' (handleStartFocusMode now i s))))
          = commitments (dayData (handleStartFocusMode now i s))
      \<and> list_all locked (butlast (commitments (dayData (handleAddCommitment r now' (handleStartFocusMode now i s)))))
      \<and> \<not> locked (last (commitments (dayData (handleAddCommitment r now' (handleStartFocusMode now i s)))))
      \<and> \<not> list_all locked (commitments (dayData (handleAddCommitment r now' (handleStartFocusMode now i s)))))
   \<and> (length (commitments (dayData s)) < 3
      \<or> isPro (settings s) \<and> length (commitments (dayData s)) < 4 \<longrightarrow>
      (total (commitmentsCount (render s)) < 3
        \<or> isPro (settings_r (render s)) \<and> total (commitmentsCount (render s)) < 4)
      \<and> (total (commitmentsCount (render (handleStartFocusMode now i s))) < 3
        \<or> isPro (settings_r (render (handleStartFocusMode now i s)))
          \<and> total (commitmentsCount (render (handleStartFocusMode now i s))) < 4))"
proof (intro conjI impI)
  assume a: "total (commitmentsCount r) < 3
      \<or> isPro (settings_r r) \<and> total (commitmentsCount r) < 4"
  show "commitments (dayData (handleAddCommitment r now s)) = commitments (dayData s) @ [newCommitment now]"
    by (simp add: add_accepted [OF a])
  show "focusMode (handleAddCommitment r now s) = focusMode s"
    by (simp add: add_accepted [OF a])
  show "\<not> locked (newCommitment now)" by (rule newCommitment_unlocked)
  note sa = start_then_add [OF a]
  show "isActive (focusMode (handleAddCommitment r now' (handleStartFocusMode now i s)))"
    by (simp add: sa start_focusMode)
  show "butlast (commitments (dayData (handleAddCommitment r now' (handleStartFocusMode now i s))))
          = commitments (dayData (handleStartFocusMode now i s))"
    by (simp add: sa start_commitments)
  show "list_all locked (butlast (commitments (dayData (handleAddCommitment r now' (handleStartFocusMode now i s)))))"
    by (simp add: sa list_all_iff)
  show "\<not> locked (last (commitments (dayData (handleAddCommitment r now' (handleStartFocusMode now i s)))))"
    by (simp add: sa newCommitment_unlocked)
  show "\<not> list_all locked (commitments (dayData (handleAddCommitment r now' (handleStartFocusMode now i s))))"
    by (simp add: sa newCommitment_unlocked)
next
  assume b: "length (commitments (dayData s)) < 3
      \<or> isPro (settings s) \<and> length (commitments (dayData s)) < 4"
  then show "total (commitmentsCount (render s)) < 3
        \<or> isPro (settings_r (render s)) \<and> total (commitmentsCount (render s)) < 4"
    by (simp add: render_total render_isPro)
  from b show "total (commitmentsCount (render (handleStartFocusMode now i s))) < 3
        \<or> isPro (settings_r (render (handleStartFocusMode now i s)))
          \<and> total (commitmentsCount (render (handleStartFocusMode now i s))) < 4"
    by (simp add: render_start_total render_start_isPro)
qed

theorem added_task_unlocked_witness:
  "length (commitments (dayData twoState)) < 3
   \<and> isActive (focusMode (handleAddCommitment (render (handleStartFocusMode 2000 (str ''1'') twoState)) 3000
        (handleStartFocusMode 2000 (str ''1'') twoState)))
   \<and> length (commitments (dayData (handleAddCommitment (render (handleStartFocusMode 2000 (str ''1'') twoState)) 3000
        (handleStartFocusMode 2000 (str ''1'') twoState)))) = 3
   \<and> \<not> locked (last (commitments (dayData (handleAddCommitment (render (handleStartFocusMode 2000 (str ''1'') twoState)) 3000
        (handleStartFocusMode 2000 (str ''1'') twoState)))))
   \<and> \<not> list_all locked (commitments (dayData (handleAddCommitment (render (handleStartFocusMode 2000 (str ''1'') twoState)) 3000
        (handleStartFocusMode 2000 (str ''1'') twoState))))"
proof -
  have h: "length (commitments (dayData twoState)) < 3" by (simp add: two_commitments)
  have r: "total (commitmentsCount (render (handleStartFocusMode 2000 (str ''1'') twoState))) < 3
      \<or> isPro (settings_r (render (handleStartFocusMode 2000 (str ''1'') twoState)))
        \<and> total (commitmentsCount (render (handleStartFocusMode 2000 (str ''1'') twoState))) < 4"
    by (simp add: render_start_total two_commitments)
  with added_task_unlocked [where r = "render (handleStartFocusMode 2000 (str ''1'') twoState)"
      and s = twoState and now = 2000 and now' = 3000 and i = "str ''1''"] have
    "isActive (focusMode (handleAddCommitment (render (handleStartFocusMode 2000 (str ''1'') twoState)) 3000
        (handleStartFocusMode 2000 (str ''1'') twoState)))"
    "\<not> locked (last (commitments (dayData (handleAddCommitment (render (handleStartFocusMode 2000 (str ''1'') twoState)) 3000
        (handleStartFocusMode 2000 (str ''1'') twoState)))))"
    "\<not> list_all locked (commitments (dayData (handleAddCommitment (render (handleStartFocusMode 2000 (str ''1'') twoState)) 3000
        (handleStartFocusMode 2000 (str ''1'') twoState))))"
    by blast+
  moreover have "length (commitments (dayData (handleAddCommitment (render (handleStartFocusMode 2000 (str ''1'') twoState)) 3000
        (handleStartFocusMode 2000 (str ''1'') twoState)))) = 3"
    by (simp add: start_then_add [OF r] two_commitments)
  ultimately show ?thesis using h by simp
qed

end
